theory Spec2Isabelle
  imports Complex_Main "HOL-Library.Word"
begin

section \<open>JavaScript values used by the license server\<close>

text \<open>
  The handlers of \<^verbatim>\<open>server.js\<close> read optional string fields from JSON bodies and from
  stored records. A field is absent (\<^verbatim>\<open>undefined\<close>), \<^verbatim>\<open>null\<close>, or a string.
  Strings are lists of code units below 256 (Latin-1); the handlers are modelled on
  string-valued fields only.
\<close>

datatype jsval = Undefined | Null | Str string

text \<open>JavaScript truthiness: \<^verbatim>\<open>!v\<close> holds for undefined, null and the empty string.\<close>

fun truthy :: "jsval \<Rightarrow> bool" where
  "truthy Undefined = False"
| "truthy Null = False"
| "truthy (Str s) = (s \<noteq> [])"

text \<open>\<^verbatim>\<open>a || b\<close>\<close>

definition jsOr :: "jsval \<Rightarrow> jsval \<Rightarrow> jsval" where
  "jsOr a b = (if truthy a then a else b)"

text \<open>The string of a value known to be one.\<close>

fun strOf :: "jsval \<Rightarrow> string" where
  "strOf (Str x) = x"
| "strOf v = []"

text \<open>\<^verbatim>\<open>String.prototype.includes\<close>\<close>

fun startsWith :: "string \<Rightarrow> string \<Rightarrow> bool" where
  "startsWith s [] = True"
| "startsWith [] (p # ps) = False"
| "startsWith (c # cs) (p # ps) = (c = p \<and> startsWith cs ps)"

fun str_includes :: "string \<Rightarrow> string \<Rightarrow> bool" where
  "str_includes [] sub = (sub = [])"
| "str_includes (c # cs) sub = (startsWith (c # cs) sub \<or> str_includes cs sub)"

section \<open>Dates\<close>

text \<open>
  A \<^verbatim>\<open>Date\<close> is read through its calendar fields (\<^verbatim>\<open>getFullYear\<close>, \<^verbatim>\<open>getMonth\<close>,
  \<^verbatim>\<open>getDate\<close> and the time within the day, in UTC). Its time value, in milliseconds
  since the epoch, is computed as ECMAScript does (\<^verbatim>\<open>MakeDay\<close>, \<^verbatim>\<open>MakeDate\<close>). An ISO
  string written by \<^verbatim>\<open>toISOString\<close> and read back by \<^verbatim>\<open>new Date(s)\<close> is identified
  with that time value.
\<close>

record jsdate =
  fullYear :: int
  month :: int
  date :: int
  timeWithinDay :: int

definition msPerDay :: int where
  "msPerDay = 86400000"

definition DayFromYear :: "int \<Rightarrow> int" where
  "DayFromYear y = 365 * (y - 1970) + (y - 1969) div 4 - (y - 1901) div 100 + (y - 1601) div 400"

definition InLeapYear :: "int \<Rightarrow> bool" where
  "InLeapYear y = (y mod 4 = 0 \<and> (y mod 100 \<noteq> 0 \<or> y mod 400 = 0))"

definition DaysBeforeMonth :: "bool \<Rightarrow> int \<Rightarrow> int" where
  "DaysBeforeMonth leap m =
     (if m = 0 then 0
      else if m = 1 then 31
      else (if leap then 1 else 0) +
        (if m = 2 then 59 else if m = 3 then 90 else if m = 4 then 120
         else if m = 5 then 151 else if m = 6 then 181 else if m = 7 then 212
         else if m = 8 then 243 else if m = 9 then 273 else if m = 10 then 304
         else 334))"

definition MakeDay :: "int \<Rightarrow> int \<Rightarrow> int \<Rightarrow> int" where
  "MakeDay y m dt =
     (let ym = y + m div 12; mn = m mod 12
      in DayFromYear ym + DaysBeforeMonth (InLeapYear ym) mn + dt - 1)"

definition MakeDate :: "int \<Rightarrow> int \<Rightarrow> int" where
  "MakeDate day time = day * msPerDay + time"

text \<open>\<^verbatim>\<open>d.valueOf()\<close>, the number compared by \<^verbatim>\<open>now < expiryDate\<close>.\<close>

definition valueOf :: "jsdate \<Rightarrow> int" where
  "valueOf d = MakeDate (MakeDay (fullYear d) (month d) (date d)) (timeWithinDay d)"

text \<open>\<^verbatim>\<open>d.setMonth(m)\<close> and \<^verbatim>\<open>d.setFullYear(y)\<close>: the time value of the date afterwards.\<close>

definition setMonth :: "jsdate \<Rightarrow> int \<Rightarrow> int" where
  "setMonth d m = MakeDate (MakeDay (fullYear d) m (date d)) (timeWithinDay d)"

definition setFullYear :: "jsdate \<Rightarrow> int \<Rightarrow> int" where
  "setFullYear d y = MakeDate (MakeDay y (month d) (date d)) (timeWithinDay d)"

text \<open>\<^verbatim>\<open>calculateExpiry(subscriptionType)\<close>, with the clock reading \<^verbatim>\<open>new Date()\<close> as \<open>now\<close>.\<close>

definition calculateExpiry :: "jsdate \<Rightarrow> jsval \<Rightarrow> int" where
  "calculateExpiry now subscriptionType =
     (if subscriptionType = Str ''monthly'' then setMonth now (month now + 1)
      else if subscriptionType = Str ''annual'' then setFullYear now (fullYear now + 1)
      else if subscriptionType = Str ''lifetime'' then setFullYear now (fullYear now + 100)
      else setMonth now (month now + 1))"

section \<open>Key generation and extension identifiers\<close>

definition hexDigit :: "nat \<Rightarrow> char" where
  "hexDigit n = ''0123456789ABCDEF'' ! (n mod 16)"

text \<open>\<^verbatim>\<open>buf.toString("hex").toUpperCase()\<close>\<close>

definition toHexUpper :: "8 word list \<Rightarrow> string" where
  "toHexUpper bs = concat (map (\<lambda>b. [hexDigit (unat b div 16), hexDigit (unat b mod 16)]) bs)"

text \<open>
  \<^verbatim>\<open>generateLicenseKey()\<close>; \<open>bytes\<close> is the result of \<^verbatim>\<open>crypto.randomBytes(8)\<close>.
\<close>

definition generateLicenseKey :: "8 word list \<Rightarrow> string" where
  "generateLicenseKey bytes =
     (let random = toHexUpper bytes
      in ''RB'' @ ''-'' @ take 4 random @ ''-'' @ take 4 (drop 4 random) @ ''-'' @
         take 4 (drop 8 random) @ ''-'' @ drop 12 random)"

definition isLowerAZ :: "char \<Rightarrow> bool" where
  "isLowerAZ c = (97 \<le> (of_char c :: nat) \<and> (of_char c :: nat) \<le> 122)"

definition isUpperAZ :: "char \<Rightarrow> bool" where
  "isUpperAZ c = (65 \<le> (of_char c :: nat) \<and> (of_char c :: nat) \<le> 90)"

text \<open>The class \<^verbatim>\<open>\s\<close> on code units below 256: tab, LF, VT, FF, CR, space, NBSP.\<close>

definition isSpace :: "char \<Rightarrow> bool" where
  "isSpace c =
     (let n = (of_char c :: nat)
      in n = 9 \<or> n = 10 \<or> n = 11 \<or> n = 12 \<or> n = 13 \<or> n = 32 \<or> n = 160)"

text \<open>\<^verbatim>\<open>toLowerCase\<close> on one code unit below 256.\<close>

definition toLowerChar :: "char \<Rightarrow> char" where
  "toLowerChar c =
     (let n = (of_char c :: nat)
      in if (65 \<le> n \<and> n \<le> 90) \<or> (192 \<le> n \<and> n \<le> 222 \<and> n \<noteq> 215)
         then char_of (n + 32) else c)"

text \<open>\<^verbatim>\<open>s.replace(/([a-z])([A-Z])/g, "$1-$2")\<close>: matches do not overlap.\<close>

fun hyphenateCamel :: "string \<Rightarrow> string" where
  "hyphenateCamel (a # b # rest) =
     (if isLowerAZ a \<and> isUpperAZ b then a # CHR ''-'' # b # hyphenateCamel rest
      else a # hyphenateCamel (b # rest))"
| "hyphenateCamel s = s"

text \<open>\<^verbatim>\<open>s.replace(/\s+/g, "-")\<close>\<close>

function hyphenateSpaces :: "string \<Rightarrow> string" where
  "hyphenateSpaces [] = []"
| "hyphenateSpaces (c # cs) =
     (if isSpace c then CHR ''-'' # hyphenateSpaces (dropWhile isSpace cs)
      else c # hyphenateSpaces cs)"
  by pat_completeness auto
termination
  by (relation "measure length") (auto simp: less_Suc_eq_le length_dropWhile_le)

definition generateExtensionId :: "string \<Rightarrow> string" where
  "generateExtensionId extensionName =
     map toLowerChar (hyphenateSpaces (hyphenateCamel extensionName))"

text \<open>Decimal rendering of a number, as in \<^verbatim>\<open>"MANUAL-" + Date.now()\<close>.\<close>

definition digitChar :: "nat \<Rightarrow> char" where
  "digitChar n = ''0123456789'' ! (n mod 10)"

function decimalDigits :: "int \<Rightarrow> string" where
  "decimalDigits n =
     (if n < 10 then [digitChar (nat n)]
      else decimalDigits (n div 10) @ [digitChar (nat (n mod 10))])"
  by pat_completeness auto
termination
  by (relation "measure nat") auto

definition intToString :: "int \<Rightarrow> string" where
  "intToString i = (if i < 0 then ''-'' @ decimalDigits (- i) else decimalDigits i)"

section \<open>Numbers\<close>

text \<open>
  A JavaScript number is a double: a finite one is given by its exact value, which is a
  rational, and the rest are the two infinities and NaN. The sign of zero is not kept;
  no value that the handlers store depends on it.
\<close>

datatype jsnumber = Num rat | PosInfinity | NegInfinity | NaN

definition pow2 :: "int \<Rightarrow> rat" where
  "pow2 k = (if 0 \<le> k then 2 ^ nat k else 1 / 2 ^ nat (- k))"

text \<open>The number of binary digits of a positive integer.\<close>

function bitLength :: "int \<Rightarrow> int" where
  "bitLength n = (if n \<le> 0 then 0 else 1 + bitLength (n div 2))"
  by pat_completeness auto
termination
  by (relation "measure nat") auto

text \<open>For positive \<open>a\<close>, the exponent \<open>e\<close> with \<open>2\<^sup>e \<le> a < 2\<^sup>e\<^sup>+\<^sup>1\<close>.\<close>

definition floorLog2 :: "rat \<Rightarrow> int" where
  "floorLog2 a = (if 1 \<le> a then bitLength \<lfloor>a\<rfloor> - 1 else - bitLength (\<lceil>1 / a\<rceil> - 1))"

definition roundHalfEven :: "rat \<Rightarrow> int" where
  "roundHalfEven x =
     (let m = \<lfloor>x\<rfloor>; f = x - of_int m
      in if f < 1 / 2 then m else if 1 / 2 < f then m + 1 else if even m then m else m + 1)"

text \<open>
  The double nearest to a rational, ties to the even significand: 53 significant bits,
  the smallest step \<open>2\<^sup>-\<^sup>1\<^sup>0\<^sup>7\<^sup>4\<close>, and an infinity from \<open>2\<^sup>1\<^sup>0\<^sup>2\<^sup>4\<close> on.
\<close>

definition roundDouble :: "rat \<Rightarrow> jsnumber" where
  "roundDouble q =
     (if q = 0 then Num 0
      else
        (let a = \<bar>q\<bar>;
             e = floorLog2 a;
             p = max (e - 52) (- 1074);
             r = of_int (roundHalfEven (a / pow2 p)) * pow2 p
         in if pow2 1024 \<le> r then (if 0 < q then PosInfinity else NegInfinity)
            else Num (if 0 < q then r else - r)))"

text \<open>\<^verbatim>\<open>x + y\<close> on numbers.\<close>

fun jsAdd :: "jsnumber \<Rightarrow> jsnumber \<Rightarrow> jsnumber" where
  "jsAdd (Num a) (Num b) = roundDouble (a + b)"
| "jsAdd NaN y = NaN"
| "jsAdd x NaN = NaN"
| "jsAdd PosInfinity NegInfinity = NaN"
| "jsAdd NegInfinity PosInfinity = NaN"
| "jsAdd PosInfinity y = PosInfinity"
| "jsAdd NegInfinity y = NegInfinity"
| "jsAdd x PosInfinity = PosInfinity"
| "jsAdd x NegInfinity = NegInfinity"

definition isDigit :: "char \<Rightarrow> bool" where
  "isDigit c = (48 \<le> (of_char c :: nat) \<and> (of_char c :: nat) \<le> 57)"

definition digitsValue :: "string \<Rightarrow> int" where
  "digitsValue ds = foldl (\<lambda>acc c. 10 * acc + (int (of_char c) - 48)) 0 ds"

definition pow10 :: "int \<Rightarrow> rat" where
  "pow10 k = (if 0 \<le> k then 10 ^ nat k else 1 / 10 ^ nat (- k))"

text \<open>
  The exponent part behind a mantissa: \<^verbatim>\<open>e\<close> or \<^verbatim>\<open>E\<close>, an optional sign, and digits;
  without digits there is none.
\<close>

definition exponentPart :: "string \<Rightarrow> int" where
  "exponentPart s =
     (case s of
        [] \<Rightarrow> 0
      | c # t \<Rightarrow>
          if c = CHR ''e'' \<or> c = CHR ''E'' then
            (case t of
               [] \<Rightarrow> 0
             | d # u \<Rightarrow>
                 if d = CHR ''-'' then - digitsValue (takeWhile isDigit u)
                 else if d = CHR ''+'' then digitsValue (takeWhile isDigit u)
                 else digitsValue (takeWhile isDigit t))
          else 0)"

text \<open>
  The value of the longest prefix that is an unsigned decimal literal (digits, a point,
  digits, an exponent part); \<open>None\<close> when there is neither a digit before the point nor
  one after it.
\<close>

definition unsignedLiteral :: "string \<Rightarrow> rat option" where
  "unsignedLiteral s =
     (let intDigits = takeWhile isDigit s;
          r1 = dropWhile isDigit s;
          fracDigits = (case r1 of c # t \<Rightarrow> if c = CHR ''.'' then takeWhile isDigit t else []
                        | [] \<Rightarrow> []);
          r2 = (case r1 of c # t \<Rightarrow> if c = CHR ''.'' then dropWhile isDigit t else r1
                | [] \<Rightarrow> [])
      in if intDigits = [] \<and> fracDigits = [] then None
         else Some ((of_int (digitsValue intDigits)
                      + of_int (digitsValue fracDigits) * pow10 (- int (length fracDigits)))
                    * pow10 (exponentPart r2)))"

text \<open>
  \<^verbatim>\<open>parseFloat(s)\<close>: leading white space is dropped, then a sign, then \<^verbatim>\<open>Infinity\<close> or
  the longest decimal literal is read; what follows is ignored, and a string that starts
  with neither gives NaN.
\<close>

definition parseFloat :: "string \<Rightarrow> jsnumber" where
  "parseFloat s =
     (let t = dropWhile isSpace s;
          negative = (case t of c # u \<Rightarrow> c = CHR ''-'' | [] \<Rightarrow> False);
          u = (case t of c # v \<Rightarrow> if c = CHR ''-'' \<or> c = CHR ''+'' then v else t | [] \<Rightarrow> [])
      in if startsWith u ''Infinity'' then (if negative then NegInfinity else PosInfinity)
         else (case unsignedLiteral u of
                 None \<Rightarrow> NaN
               | Some v \<Rightarrow> roundDouble (if negative then - v else v)))"

text \<open>
  A number in a JSON file is a finite double or \<^verbatim>\<open>null\<close>: \<^verbatim>\<open>JSON.stringify\<close> writes
  NaN and the infinities as \<^verbatim>\<open>null\<close>, and \<^verbatim>\<open>null\<close> read back counts as 0 in an
  addition.
\<close>

definition jsonNumber :: "jsnumber \<Rightarrow> rat option" where
  "jsonNumber x = (case x of Num q \<Rightarrow> Some q | _ \<Rightarrow> None)"

definition toNumber :: "rat option \<Rightarrow> jsnumber" where
  "toNumber v = (case v of Some q \<Rightarrow> Num q | None \<Rightarrow> Num 0)"

section \<open>Stored data\<close>

text \<open>
  One entry of \<^verbatim>\<open>data/licenses.json\<close>. Timestamps are time values; a field that a
  handler never wrote is \<open>Undefined\<close> or \<open>None\<close>.
\<close>

record license =
  email :: jsval
  subscriptionId :: jsval
  subscriptionType :: jsval
  status :: string
  createdAt :: int
  expiresAt :: int
  paypalSubscriptionId :: jsval
  manual :: bool
  extensionName :: jsval
  extensionId :: jsval
  cancelledAt :: "int option"
  revokedAt :: "int option"
  revocationReason :: jsval

text \<open>
  \<^verbatim>\<open>data/stats.json\<close>. The revenue is the number in the file: a finite double, given by
  its exact value, or \<^verbatim>\<open>null\<close>. The two counters only ever move by one and are kept as
  integers.
\<close>

record stats =
  totalSales :: int
  monthlyRevenue :: "rat option"
  activeSubscriptions :: int

text \<open>
  The two files together. The license object is the list of its entries in the order of
  \<^verbatim>\<open>Object.entries\<close> (insertion order; license keys are never array indices).
\<close>

record state =
  licenses :: "(string \<times> license) list"
  stats :: stats

text \<open>The files written by \<^verbatim>\<open>ensureDataDir\<close> at first start.\<close>

definition initialState :: state where
  "initialState =
     \<lparr>licenses = [],
      stats = \<lparr>totalSales = 0, monthlyRevenue = Some 0, activeSubscriptions = 0\<rparr>\<rparr>"

text \<open>
  \<^verbatim>\<open>licenses[key]\<close> for the keys of the file. Names that every object inherits, such
  as \<^verbatim>\<open>constructor\<close>, are not looked up here.
\<close>

definition getLicense :: "(string \<times> license) list \<Rightarrow> string \<Rightarrow> license option" where
  "getLicense ls key = map_of ls key"

text \<open>\<^verbatim>\<open>licenses[key] = value\<close>: an existing entry keeps its place, a new one goes last.\<close>

fun setLicense :: "string \<Rightarrow> license \<Rightarrow> (string \<times> license) list \<Rightarrow> (string \<times> license) list" where
  "setLicense key v [] = [(key, v)]"
| "setLicense key v ((k, l) # rest) =
     (if k = key then (key, v) # rest else (k, l) # setLicense key v rest)"

text \<open>\<^verbatim>\<open>delete licenses[key]\<close>\<close>

definition deleteLicense :: "string \<Rightarrow> (string \<times> license) list \<Rightarrow> (string \<times> license) list" where
  "deleteLicense key ls = filter (\<lambda>(k, l). k \<noteq> key) ls"

text \<open>The number of records whose status is \<^verbatim>\<open>"active"\<close>.\<close>

definition activeCount :: "(string \<times> license) list \<Rightarrow> nat" where
  "activeCount ls = length (filter (\<lambda>(k, l). status l = ''active'') ls)"

text \<open>The stored count agrees with the records.\<close>

definition statsConsistent :: "state \<Rightarrow> bool" where
  "statsConsistent s = (activeSubscriptions (stats s) = int (activeCount (licenses s)))"

section \<open>The PayPal webhook\<close>

text \<open>
  The fields of \<^verbatim>\<open>req.body.resource\<close> that the handler reads. \<open>amount_total\<close> is
  \<^verbatim>\<open>resource.amount?.total\<close>, absent when the event has no \<^verbatim>\<open>amount\<close>. A total
  sent as a JSON number is read by \<^verbatim>\<open>parseFloat\<close> through its decimal string and is
  modelled as that string.
\<close>

record resource =
  resource_id :: jsval
  billing_agreement_id :: jsval
  plan_id :: jsval
  subscriber_email_address :: jsval
  payer_email_address :: jsval
  amount_total :: jsval

datatype webhook_response = OK200 | WebhookProcessingFailed

text \<open>The subscription type read from the plan identifier.\<close>

definition planSubscriptionType :: "jsval \<Rightarrow> string" where
  "planSubscriptionType plan =
     (let planId = (case jsOr plan (Str ''monthly'') of Str p \<Rightarrow> p | _ \<Rightarrow> ''monthly'')
      in if str_includes planId ''annual'' \<or> str_includes planId ''yearly'' then ''annual''
         else if str_includes planId ''lifetime'' then ''lifetime''
         else ''monthly'')"

text \<open>
  The price used when the event carries no amount: the numbers \<^verbatim>\<open>9.99\<close>, \<^verbatim>\<open>99\<close> and
  \<^verbatim>\<open>199\<close>, as the strings that \<^verbatim>\<open>parseFloat\<close> makes of its argument before reading it.
\<close>

definition defaultAmount :: "string \<Rightarrow> string" where
  "defaultAmount ty =
     (if ty = ''monthly'' then ''9.99''
      else if ty = ''annual'' then ''99'' else ''199'')"

text \<open>
  The branch for \<^verbatim>\<open>BILLING.SUBSCRIPTION.ACTIVATED\<close> and \<^verbatim>\<open>PAYMENT.SALE.COMPLETED\<close>.
  Every \<^verbatim>\<open>new Date()\<close> of one request reads the same instant \<open>now\<close>.
\<close>

definition webhookActivated :: "resource \<Rightarrow> 8 word list \<Rightarrow> jsdate \<Rightarrow> state \<Rightarrow> state" where
  "webhookActivated r bytes now s =
     (let email' = jsOr (jsOr (subscriber_email_address r) (payer_email_address r))
                     (billing_agreement_id r);
          subscriptionId' = jsOr (resource_id r) (billing_agreement_id r);
          subscriptionType' = planSubscriptionType (plan_id r);
          licenseKey = generateLicenseKey bytes;
          expiresAt' = calculateExpiry now (Str subscriptionType');
          lic = \<lparr>email = email',
                 subscriptionId = subscriptionId',
                 subscriptionType = Str subscriptionType',
                 status = ''active'',
                 createdAt = valueOf now,
                 expiresAt = expiresAt',
                 paypalSubscriptionId = subscriptionId',
                 manual = False,
                 extensionName = Str ''ReplyBolt'',
                 extensionId = Str ''reply-bolt'',
                 cancelledAt = None,
                 revokedAt = None,
                 revocationReason = Undefined\<rparr>;
          amount = (if truthy (amount_total r) then strOf (amount_total r)
                    else defaultAmount subscriptionType');
          st = stats s
      in \<lparr>licenses = setLicense licenseKey lic (licenses s),
          stats = \<lparr>totalSales = totalSales st + 1,
                    monthlyRevenue =
                      jsonNumber (jsAdd (toNumber (monthlyRevenue st)) (parseFloat amount)),
                    activeSubscriptions = activeSubscriptions st + 1\<rparr>\<rparr>)"

text \<open>
  The loop of the \<^verbatim>\<open>BILLING.SUBSCRIPTION.CANCELLED\<close> branch: the first entry whose
  \<^verbatim>\<open>paypalSubscriptionId\<close> is the event's is marked, and the loop stops.
\<close>

fun cancelFirst :: "jsval \<Rightarrow> int \<Rightarrow> (string \<times> license) list \<Rightarrow> (string \<times> license) list" where
  "cancelFirst sid t [] = []"
| "cancelFirst sid t ((key, l) # rest) =
     (if paypalSubscriptionId l = sid
      then (key, l\<lparr>status := ''cancelled'', cancelledAt := Some t\<rparr>) # rest
      else (key, l) # cancelFirst sid t rest)"

definition webhookCancelled :: "resource \<Rightarrow> jsdate \<Rightarrow> state \<Rightarrow> state" where
  "webhookCancelled r now s =
     (let st = stats s
      in \<lparr>licenses = cancelFirst (resource_id r) (valueOf now) (licenses s),
          stats = st\<lparr>activeSubscriptions := max 0 (activeSubscriptions st - 1)\<rparr>\<rparr>)"

text \<open>
  \<^verbatim>\<open>POST /webhook/paypal\<close>. A body without \<^verbatim>\<open>resource\<close> makes a handled event throw
  before anything is written; the \<^verbatim>\<open>catch\<close> answers 500.
\<close>

definition webhook_paypal ::
    "jsval \<Rightarrow> resource option \<Rightarrow> 8 word list \<Rightarrow> jsdate \<Rightarrow> state \<Rightarrow> webhook_response \<times> state" where
  "webhook_paypal event_type res bytes now s =
     (if event_type = Str ''BILLING.SUBSCRIPTION.ACTIVATED''
         \<or> event_type = Str ''PAYMENT.SALE.COMPLETED''
      then (case res of None \<Rightarrow> (WebhookProcessingFailed, s)
            | Some r \<Rightarrow> (OK200, webhookActivated r bytes now s))
      else if event_type = Str ''BILLING.SUBSCRIPTION.CANCELLED''
      then (case res of None \<Rightarrow> (WebhookProcessingFailed, s)
            | Some r \<Rightarrow> (OK200, webhookCancelled r now s))
      else (OK200, s))"

section \<open>License verification\<close>

text \<open>
  The JSON answers of \<^verbatim>\<open>POST /api/verify\<close>: \<open>Rejected e\<close> is
  \<^verbatim>\<open>{valid: false, error: e}\<close>; \<open>Verdict v e x t n\<close> is
  \<^verbatim>\<open>{valid: v, email: e, expiresAt: x, subscriptionType: t, extensionName: n}\<close>.
\<close>

datatype verify_response =
  Rejected string
| Verdict bool jsval "int option" jsval jsval

text \<open>The answer once the extension identifier has matched.\<close>

definition verdict :: "license \<Rightarrow> jsdate \<Rightarrow> verify_response" where
  "verdict l now =
     (let isValid = (status l = ''active'' \<and> valueOf now < expiresAt l)
      in Verdict isValid
           (if isValid then email l else Null)
           (if isValid then Some (expiresAt l) else None)
           (if isValid then subscriptionType l else Null)
           (if isValid then extensionName l else Null))"

text \<open>\<^verbatim>\<open>POST /api/verify\<close>. The handler reads the files and writes neither.\<close>

definition verify :: "jsval \<Rightarrow> jsval \<Rightarrow> jsdate \<Rightarrow> state \<Rightarrow> verify_response \<times> state" where
  "verify licenseKey extId now s =
     (if \<not> truthy licenseKey then (Rejected ''No license key provided'', s)
      else if \<not> truthy extId then (Rejected ''Extension ID is required'', s)
      else
        (case getLicense (licenses s) (strOf licenseKey) of
           None \<Rightarrow> (Rejected ''Invalid license key'', s)
         | Some l \<Rightarrow>
             if truthy (extensionId l)
             then (if extensionId l \<noteq> extId
                   then (Rejected ''This license is for a different extension'', s)
                   else (verdict l now, s))
             else
               (let expectedExtensionId =
                      generateExtensionId (strOf (jsOr (extensionName l) (Str ''ReplyBolt'')))
                in if Str expectedExtensionId \<noteq> extId
                   then (Rejected ''This license is for a different extension'', s)
                   else (verdict l now, s))))"

text \<open>
  The identifier that the handler compares a request with, for a stored record: its
  \<^verbatim>\<open>extensionId\<close> when that is truthy, and otherwise, the \<^verbatim>\<open>expectedExtensionId\<close> of
  the handler's second branch, the identifier generated from its \<^verbatim>\<open>extensionName\<close>.
  For a record stored with an empty \<^verbatim>\<open>extensionId\<close> this is not the stored identifier.
\<close>

definition expectedExtensionId :: "license \<Rightarrow> jsval" where
  "expectedExtensionId l =
     (if truthy (extensionId l) then extensionId l
      else Str (generateExtensionId (strOf (jsOr (extensionName l) (Str ''ReplyBolt'')))))"

section \<open>The admin handlers\<close>

text \<open>
  \<open>Unauthorized\<close> is the 401 answer, \<open>BadRequest\<close> a 400 and \<open>NotFound\<close> a 404 with
  their error texts, \<open>Created key expiry\<close> the answer of a created license, \<open>Success\<close> the
  answer of a revocation or deletion. \<open>Throws\<close> stands for an exception that leaves the
  handler. The mails sent after a change are outside the model.
\<close>

datatype admin_response =
  Unauthorized
| BadRequest string
| NotFound string
| Throws
| Created string int
| Success string

text \<open>
  \<^verbatim>\<open>POST /api/admin/create-license\<close>. \<open>expectedAuth\<close> is the header value built from the
  admin password, \<open>auth\<close> the request's \<^verbatim>\<open>authorization\<close> header, \<open>bodyEmail\<close>,
  \<open>bodyType\<close> and \<open>bodyName\<close> the body's \<^verbatim>\<open>email\<close>, \<^verbatim>\<open>subscriptionType\<close> and
  \<^verbatim>\<open>extensionName\<close>. A \<^verbatim>\<open>null\<close> extension name makes \<^verbatim>\<open>generateExtensionId\<close> throw
  before anything is written.
\<close>

definition create_license ::
    "string \<Rightarrow> jsval \<Rightarrow> jsval \<Rightarrow> jsval \<Rightarrow> jsval \<Rightarrow> 8 word list \<Rightarrow> jsdate \<Rightarrow> state
       \<Rightarrow> admin_response \<times> state" where
  "create_license expectedAuth auth bodyEmail bodyType bodyName bytes now s =
     (if auth \<noteq> Str expectedAuth then (Unauthorized, s)
      else
        (let subscriptionType' = (if bodyType = Undefined then Str ''monthly'' else bodyType);
             extensionName' = (if bodyName = Undefined then Str ''ReplyBolt'' else bodyName)
         in if \<not> truthy bodyEmail then (BadRequest ''Email required'', s)
            else
              (let licenseKey = generateLicenseKey bytes;
                   expiresAt' = calculateExpiry now subscriptionType'
               in case extensionName' of
                    Str name \<Rightarrow>
                      (let lic = \<lparr>email = bodyEmail,
                                  subscriptionId = Str (''MANUAL-'' @ intToString (valueOf now)),
                                  subscriptionType = subscriptionType',
                                  status = ''active'',
                                  createdAt = valueOf now,
                                  expiresAt = expiresAt',
                                  paypalSubscriptionId = Null,
                                  manual = True,
                                  extensionName = extensionName',
                                  extensionId = Str (generateExtensionId name),
                                  cancelledAt = None,
                                  revokedAt = None,
                                  revocationReason = Undefined\<rparr>;
                           st = stats s
                       in (Created licenseKey expiresAt',
                           \<lparr>licenses = setLicense licenseKey lic (licenses s),
                            stats = st\<lparr>totalSales := totalSales st + 1,
                                       activeSubscriptions := activeSubscriptions st + 1\<rparr>\<rparr>))
                  | _ \<Rightarrow> (Throws, s))))"

text \<open>\<^verbatim>\<open>POST /api/admin/revoke-license\<close>\<close>

definition revoke_license ::
    "string \<Rightarrow> jsval \<Rightarrow> jsval \<Rightarrow> jsval \<Rightarrow> jsdate \<Rightarrow> state \<Rightarrow> admin_response \<times> state" where
  "revoke_license expectedAuth auth licenseKey reason now s =
     (if auth \<noteq> Str expectedAuth then (Unauthorized, s)
      else if \<not> truthy licenseKey then (BadRequest ''License key required'', s)
      else
        (case getLicense (licenses s) (strOf licenseKey) of
           None \<Rightarrow> (NotFound ''License not found'', s)
         | Some l \<Rightarrow>
             (let wasActive = (status l = ''active'');
                  l1 = l\<lparr>status := ''revoked'', revokedAt := Some (valueOf now)\<rparr>;
                  l2 = (if truthy reason then l1\<lparr>revocationReason := reason\<rparr> else l1);
                  st = stats s
              in (Success ''License revoked successfully'',
                  \<lparr>licenses = setLicense (strOf licenseKey) l2 (licenses s),
                   stats = (if wasActive
                            then st\<lparr>activeSubscriptions := max 0 (activeSubscriptions st - 1)\<rparr>
                            else st)\<rparr>))))"

text \<open>\<^verbatim>\<open>POST /api/admin/delete-license\<close>\<close>

definition delete_license ::
    "string \<Rightarrow> jsval \<Rightarrow> jsval \<Rightarrow> state \<Rightarrow> admin_response \<times> state" where
  "delete_license expectedAuth auth licenseKey s =
     (if auth \<noteq> Str expectedAuth then (Unauthorized, s)
      else if \<not> truthy licenseKey then (BadRequest ''License key required'', s)
      else
        (case getLicense (licenses s) (strOf licenseKey) of
           None \<Rightarrow> (NotFound ''License not found'', s)
         | Some l \<Rightarrow>
             (let wasActive = (status l = ''active'');
                  st = stats s;
                  st1 = st\<lparr>totalSales := max 0 (totalSales st - 1)\<rparr>
              in (Success ''License deleted successfully'',
                  \<lparr>licenses = deleteLicense (strOf licenseKey) (licenses s),
                   stats = (if wasActive
                            then st1\<lparr>activeSubscriptions := max 0 (activeSubscriptions st1 - 1)\<rparr>
                            else st1)\<rparr>))))"

section \<open>Example requests\<close>

text \<open>
  A clock reading (3 November 2026, 00:00 UTC), eight random bytes, the header of the
  default admin password, and the state after one manual issuance from the initial
  files.
\<close>

definition exampleNow :: jsdate where
  "exampleNow = \<lparr>fullYear = 2026, month = 10, date = 3, timeWithinDay = 0\<rparr>"

definition exampleBytes :: "8 word list" where
  "exampleBytes = [0x12, 0xAB, 0, 255, 1, 2, 3, 0xFE]"

definition exampleAuth :: string where
  "exampleAuth = ''Basic YWRtaW46Y2hhbmdlbWU=''"

definition exampleLicense :: license where
  "exampleLicense =
     \<lparr>email = Str ''a@x.com'',
      subscriptionId = Str ''MANUAL-1793664000000'',
      subscriptionType = Str ''monthly'',
      status = ''active'',
      createdAt = 1793664000000,
      expiresAt = 1796256000000,
      paypalSubscriptionId = Null,
      manual = True,
      extensionName = Str ''My Extension'',
      extensionId = Str ''my-extension'',
      cancelledAt = None,
      revokedAt = None,
      revocationReason = Undefined\<rparr>"

definition exampleIssued :: state where
  "exampleIssued =
     \<lparr>licenses = [(''RB-12AB-00FF-0102-03FE'', exampleLicense)],
      stats = \<lparr>totalSales = 1, monthlyRevenue = Some 0, activeSubscriptions = 1\<rparr>\<rparr>"

text \<open>
  The state after a manual issuance with the empty extension name on the initial files.
\<close>

definition exampleNameless :: state where
  "exampleNameless =
     \<lparr>licenses = [(''RB-12AB-00FF-0102-03FE'',
                    exampleLicense\<lparr>extensionName := Str [], extensionId := Str []\<rparr>)],
      stats = \<lparr>totalSales = 1, monthlyRevenue = Some 0, activeSubscriptions = 1\<rparr>\<rparr>"

text \<open>A later clock reading, 3 January 2027, after the example license has run out.\<close>

definition exampleLater :: jsdate where
  "exampleLater = \<lparr>fullYear = 2027, month = 0, date = 3, timeWithinDay = 0\<rparr>"

text \<open>A payment event for an annual plan that carries no amount.\<close>

definition examplePayment :: resource where
  "examplePayment =
     \<lparr>resource_id = Str ''I-BW452GLLEP1G'',
      billing_agreement_id = Undefined,
      plan_id = Str ''P-annual-2026'',
      subscriber_email_address = Str ''c@z.net'',
      payer_email_address = Undefined,
      amount_total = Undefined\<rparr>"

text \<open>
  The license that this payment creates, the state after it, the state after a manual
  issuance with other random bytes on top of it, and that state after the subscription
  of the payment has been cancelled.
\<close>

definition examplePaidLicense :: license where
  "examplePaidLicense =
     \<lparr>email = Str ''c@z.net'',
      subscriptionId = Str ''I-BW452GLLEP1G'',
      subscriptionType = Str ''annual'',
      status = ''active'',
      createdAt = 1793664000000,
      expiresAt = 1825200000000,
      paypalSubscriptionId = Str ''I-BW452GLLEP1G'',
      manual = False,
      extensionName = Str ''ReplyBolt'',
      extensionId = Str ''reply-bolt'',
      cancelledAt = None,
      revokedAt = None,
      revocationReason = Undefined\<rparr>"

definition examplePaid :: state where
  "examplePaid =
     \<lparr>licenses = [(''RB-12AB-00FF-0102-03FE'', examplePaidLicense)],
      stats = \<lparr>totalSales = 1, monthlyRevenue = Some 99, activeSubscriptions = 1\<rparr>\<rparr>"

definition exampleBytes2 :: "8 word list" where
  "exampleBytes2 = [0, 0, 0, 0, 0, 0, 0, 1]"

definition exampleBoth :: state where
  "exampleBoth =
     \<lparr>licenses = [(''RB-12AB-00FF-0102-03FE'', examplePaidLicense),
                  (''RB-0000-0000-0000-0001'', exampleLicense)],
      stats = \<lparr>totalSales = 2, monthlyRevenue = Some 99, activeSubscriptions = 2\<rparr>\<rparr>"

definition exampleTwo :: state where
  "exampleTwo =
     \<lparr>licenses = [(''RB-12AB-00FF-0102-03FE'',
                    examplePaidLicense\<lparr>status := ''cancelled'', cancelledAt := Some 1798934400000\<rparr>),
                  (''RB-0000-0000-0000-0001'', exampleLicense)],
      stats = \<lparr>totalSales = 2, monthlyRevenue = Some 99, activeSubscriptions = 1\<rparr>\<rparr>"

section \<open>Facts about the helpers\<close>

lemma hyphenateCamel_Nil_iff: "hyphenateCamel s = [] \<longleftrightarrow> s = []"
  by (cases s rule: hyphenateCamel.cases) auto

lemma hyphenateSpaces_Nil_iff: "hyphenateSpaces s = [] \<longleftrightarrow> s = []"
  by (cases s) auto

lemma generateExtensionId_Nil_iff: "generateExtensionId s = [] \<longleftrightarrow> s = []"
  by (simp add: generateExtensionId_def hyphenateSpaces_Nil_iff hyphenateCamel_Nil_iff)

lemma generateLicenseKey_not_Nil: "generateLicenseKey bytes \<noteq> []"
  by (simp add: generateLicenseKey_def Let_def)

lemma getLicense_setLicense: "getLicense (setLicense k v ls) k = Some v"
  by (induction ls) (auto simp: getLicense_def)


lemma truthy_jsOr_default: "truthy (jsOr v (Str ''ReplyBolt''))"
  by (simp add: jsOr_def)

lemma truthy_strOf: "truthy v \<Longrightarrow> strOf v \<noteq> [] \<and> Str (strOf v) = v"
  by (cases v) auto

lemma truthy_expectedExtensionId: "truthy (expectedExtensionId l)"
  using truthy_strOf[OF truthy_jsOr_default, of "extensionName l"]
  by (simp add: expectedExtensionId_def generateExtensionId_Nil_iff)

lemma verify_matching:
  assumes "getLicense (licenses s) k = Some l" and "k \<noteq> []"
  shows "verify (Str k) (expectedExtensionId l) now s = (verdict l now, s)"
  using assms truthy_expectedExtensionId[of l]
  by (auto simp: verify_def expectedExtensionId_def Let_def)

subsection \<open>Numbers, evaluated\<close>

text \<open>
  Roundings of the amounts used below. Six payments of 9.99 add up to
  59.940000000000005, the double above 59.94.
\<close>

lemma floor_rat_numeral_div:
  "\<lfloor>(numeral a :: rat) / numeral b\<rfloor> = numeral a div numeral b"
  using floor_divide_of_int_eq [of "numeral a" "numeral b", where ?'a = rat] by simp

lemmas parse_eval = parseFloat_def unsignedLiteral_def exponentPart_def digitsValue_def
  pow10_def isDigit_def isSpace_def Let_def

lemmas round_eval = roundDouble_def roundHalfEven_def pow2_def floor_rat_numeral_div Let_def

lemma floorLog2_9_99: "floorLog2 (999 / 100) = 3"
  by (simp add: floorLog2_def bitLength.simps floor_rat_numeral_div)

lemma roundDouble_9_99: "roundDouble (999 / 100) = Num (5623870034678907 / 562949953421312)"
  by (simp add: round_eval floorLog2_9_99)

lemma floorLog2_99: "floorLog2 99 = 6"
  by (simp add: floorLog2_def bitLength.simps floor_rat_numeral_div)

lemma roundDouble_99: "roundDouble 99 = Num 99"
  by (simp add: round_eval floorLog2_99)

lemma floorLog2_108_99: "floorLog2 (61355915423388795 / 562949953421312) = 6"
  by (simp add: floorLog2_def bitLength.simps floor_rat_numeral_div)

lemma roundDouble_108_99: "roundDouble (61355915423388795 / 562949953421312) = Num (7669489427923599 / 70368744177664)"
  by (simp add: round_eval floorLog2_108_99)

lemma floorLog2_payments_one: "floorLog2 (5623870034678907 / 562949953421312) = 3"
  by (simp add: floorLog2_def bitLength.simps floor_rat_numeral_div)

lemma roundDouble_payments_one:
  "roundDouble (5623870034678907 / 562949953421312) = Num (5623870034678907 / 562949953421312)"
  by (simp add: round_eval floorLog2_payments_one)

lemma floorLog2_payments_two: "floorLog2 (5623870034678907 / 281474976710656) = 4"
  by (simp add: floorLog2_def bitLength.simps floor_rat_numeral_div)

lemma roundDouble_payments_two: "roundDouble (5623870034678907 / 281474976710656) = Num (5623870034678907 / 281474976710656)"
  by (simp add: round_eval floorLog2_payments_two)

lemma floorLog2_payments_three: "floorLog2 (16871610104036721 / 562949953421312) = 4"
  by (simp add: floorLog2_def bitLength.simps floor_rat_numeral_div)

lemma roundDouble_payments_three: "roundDouble (16871610104036721 / 562949953421312) = Num (1054475631502295 / 35184372088832)"
  by (simp add: round_eval floorLog2_payments_three)

lemma floorLog2_payments_four: "floorLog2 (22495480138715627 / 562949953421312) = 5"
  by (simp add: floorLog2_def bitLength.simps floor_rat_numeral_div)

lemma roundDouble_payments_four: "roundDouble (22495480138715627 / 562949953421312) = Num (5623870034678907 / 140737488355328)"
  by (simp add: round_eval floorLog2_payments_four)

lemma floorLog2_payments_five: "floorLog2 (28119350173394535 / 562949953421312) = 5"
  by (simp add: floorLog2_def bitLength.simps floor_rat_numeral_div)

lemma roundDouble_payments_five: "roundDouble (28119350173394535 / 562949953421312) = Num (3514918771674317 / 70368744177664)"
  by (simp add: round_eval floorLog2_payments_five)

lemma floorLog2_payments_six: "floorLog2 (33743220208073443 / 562949953421312) = 5"
  by (simp add: floorLog2_def bitLength.simps floor_rat_numeral_div)

lemma roundDouble_payments_six: "roundDouble (33743220208073443 / 562949953421312) = Num (8435805052018361 / 140737488355328)"
  by (simp add: round_eval floorLog2_payments_six)

lemma parseFloat_99: "parseFloat ''99'' = Num 99"
  by (simp add: parse_eval roundDouble_99)

lemma parseFloat_9_99: "parseFloat ''9.99'' = Num (5623870034678907 / 562949953421312)"
  by (simp add: parse_eval roundDouble_9_99)

lemma parseFloat_abc: "parseFloat ''abc'' = NaN"
  by (simp add: parse_eval)

lemma add_0_99: "jsAdd (Num 0) (Num 99) = Num 99"
  by (simp add: roundDouble_99)

lemma add_99_9_99:
  "jsAdd (Num 99) (Num (5623870034678907 / 562949953421312))
     = Num (7669489427923599 / 70368744177664)"
  by (simp add: roundDouble_108_99)

lemma six_payments:
  "jsAdd (jsAdd (jsAdd (jsAdd (jsAdd (jsAdd (Num 0) (parseFloat ''9.99'')) (parseFloat ''9.99''))
      (parseFloat ''9.99'')) (parseFloat ''9.99'')) (parseFloat ''9.99'')) (parseFloat ''9.99'')
     = Num (8435805052018361 / 140737488355328)
   \<and> (8435805052018361 / 140737488355328 :: rat) \<noteq> 6 * (999 / 100)"
  by (simp add: parseFloat_9_99 roundDouble_payments_one roundDouble_payments_two roundDouble_payments_three
      roundDouble_payments_four roundDouble_payments_five roundDouble_payments_six)

subsection \<open>The example requests, evaluated\<close>

lemma exampleKey: "generateLicenseKey exampleBytes = ''RB-12AB-00FF-0102-03FE''"
  by (simp add: exampleBytes_def generateLicenseKey_def toHexUpper_def hexDigit_def)

lemma valueOf_exampleNow: "valueOf exampleNow = 1793664000000"
  by (simp add: exampleNow_def valueOf_def MakeDate_def MakeDay_def DayFromYear_def
      DaysBeforeMonth_def InLeapYear_def msPerDay_def)

lemma valueOf_exampleLater: "valueOf exampleLater = 1798934400000"
  by (simp add: exampleLater_def valueOf_def MakeDate_def MakeDay_def DayFromYear_def
      DaysBeforeMonth_def InLeapYear_def msPerDay_def)

lemma expiry_monthly: "calculateExpiry exampleNow (Str ''monthly'') = 1796256000000"
  by (simp add: exampleNow_def calculateExpiry_def setMonth_def MakeDate_def MakeDay_def
      DayFromYear_def DaysBeforeMonth_def InLeapYear_def msPerDay_def)

lemma genId_ReplyBolt: "generateExtensionId ''ReplyBolt'' = ''reply-bolt''"
  by (simp add: generateExtensionId_def isLowerAZ_def isUpperAZ_def isSpace_def
      toLowerChar_def char_of_eq_iff)

lemma genId_MyExtension: "generateExtensionId ''My Extension'' = ''my-extension''"
  by (simp add: generateExtensionId_def isLowerAZ_def isUpperAZ_def isSpace_def
      toLowerChar_def char_of_eq_iff)

lemma intToString_exampleNow: "intToString 1793664000000 = ''1793664000000''"
  by (simp add: intToString_def digitChar_def)



lemma create_example:
  "create_license exampleAuth (Str exampleAuth) (Str ''a@x.com'') (Str ''monthly'')
       (Str ''My Extension'') exampleBytes exampleNow initialState
     = (Created ''RB-12AB-00FF-0102-03FE'' 1796256000000, exampleIssued)"
  by (simp add: create_license_def exampleKey valueOf_exampleNow expiry_monthly genId_MyExtension
      intToString_exampleNow initialState_def exampleIssued_def exampleLicense_def Let_def)

lemma create_nameless:
  "create_license exampleAuth (Str exampleAuth) (Str ''a@x.com'') (Str ''monthly'') (Str [])
       exampleBytes exampleNow initialState
     = (Created ''RB-12AB-00FF-0102-03FE'' 1796256000000, exampleNameless)"
  by (simp add: create_license_def exampleKey valueOf_exampleNow expiry_monthly
      generateExtensionId_Nil_iff intToString_exampleNow initialState_def exampleNameless_def
      exampleLicense_def Let_def)

lemma getLicense_exampleNameless:
  "getLicense (licenses exampleNameless) ''RB-12AB-00FF-0102-03FE''
     = Some (exampleLicense\<lparr>extensionName := Str [], extensionId := Str []\<rparr>)"
  by (simp add: getLicense_def exampleNameless_def)

lemma verify_example:
  "verify (Str ''RB-12AB-00FF-0102-03FE'') (Str ''my-extension'') exampleNow exampleIssued
     = (Verdict True (Str ''a@x.com'') (Some 1796256000000) (Str ''monthly'')
          (Str ''My Extension''), exampleIssued)"
  by (simp add: verify_def verdict_def getLicense_def exampleIssued_def exampleLicense_def
      valueOf_exampleNow Let_def)

lemma getLicense_exampleIssued:
  "getLicense (licenses exampleIssued) ''RB-12AB-00FF-0102-03FE'' = Some exampleLicense"
  by (simp add: getLicense_def exampleIssued_def)

lemma expectedExtensionId_exampleLicense: "expectedExtensionId exampleLicense = Str ''my-extension''"
  by (simp add: expectedExtensionId_def exampleLicense_def)

subsection \<open>Calendar arithmetic\<close>

text \<open>Every expiry computed by \<^verbatim>\<open>calculateExpiry\<close> lies after the clock reading.\<close>

lemma div_succ:
  fixes a k :: int
  assumes "0 < k"
  shows "(a + 1) div k = a div k + (if k dvd (a + 1) then 1 else 0)"
proof (cases "a mod k = k - 1")
  case True
  have "a + 1 = k * (a div k) + a mod k + 1" by simp
  also have "\<dots> = k * (a div k) + k" using True by simp
  also have "\<dots> = k * (a div k + 1) + 0" by (simp add: algebra_simps)
  finally have "a + 1 = k * (a div k + 1) + 0" .
  then have "(a + 1) div k = a div k + 1" "k dvd (a + 1)"
    using assms by (auto intro: int_div_pos_eq simp del: mult_div_mod_eq div_mult_mod_eq)
  then show ?thesis by simp
next
  case False
  have r: "0 \<le> a mod k" "a mod k < k" using assms by simp_all
  with False have r': "0 \<le> a mod k + 1" "a mod k + 1 < k" by linarith+
  have e: "a + 1 = k * (a div k) + (a mod k + 1)" by simp
  have "(a + 1) div k = a div k" "(a + 1) mod k = a mod k + 1"
    using int_div_pos_eq [OF e r'] int_mod_pos_eq [OF e r'] by simp_all
  moreover have "\<not> k dvd (a + 1)"
    using \<open>(a + 1) mod k = a mod k + 1\<close> r by (simp add: dvd_eq_mod_eq_0)
  ultimately show ?thesis by simp
qed

lemma leap_dvd:
  fixes y :: int
  shows "4 dvd (y - 1969 + 1) \<longleftrightarrow> 4 dvd y"
    and "100 dvd (y - 1901 + 1) \<longleftrightarrow> 100 dvd y"
    and "400 dvd (y - 1601 + 1) \<longleftrightarrow> 400 dvd y"
proof -
  have "y - 1969 + 1 = y - 4 * 492" "y - 1901 + 1 = y - 100 * 19" "y - 1601 + 1 = y - 400 * 4"
    by simp_all
  then show "4 dvd (y - 1969 + 1) \<longleftrightarrow> 4 dvd y" "100 dvd (y - 1901 + 1) \<longleftrightarrow> 100 dvd y"
    "400 dvd (y - 1601 + 1) \<longleftrightarrow> 400 dvd y"
    by (simp_all only: dvd_diff_left_iff dvd_triv_left)
qed

lemma leap_chain:
  fixes y :: int
  shows "400 dvd y \<Longrightarrow> 100 dvd y" "100 dvd y \<Longrightarrow> 4 dvd y"
proof -
  have "(100::int) dvd 400" "(4::int) dvd 100" by simp_all
  then show "400 dvd y \<Longrightarrow> 100 dvd y" "100 dvd y \<Longrightarrow> 4 dvd y"
    by (blast intro: dvd_trans)+
qed

lemma div_succ_leap:
  fixes y :: int
  shows "(y + 1 - 1969) div 4 = (y - 1969) div 4 + (if 4 dvd y then 1 else 0)"
    and "(y + 1 - 1901) div 100 = (y - 1901) div 100 + (if 100 dvd y then 1 else 0)"
    and "(y + 1 - 1601) div 400 = (y - 1601) div 400 + (if 400 dvd y then 1 else 0)"
proof -
  have e: "y + 1 - 1969 = y - 1969 + 1" "y + 1 - 1901 = y - 1901 + 1" "y + 1 - 1601 = y - 1601 + 1"
    by simp_all
  have "(y - 1969 + 1) div 4 = (y - 1969) div 4 + (if 4 dvd (y - 1969 + 1) then 1 else 0)"
    by (rule div_succ) simp
  then show "(y + 1 - 1969) div 4 = (y - 1969) div 4 + (if 4 dvd y then 1 else 0)"
    by (simp only: e leap_dvd)
  have "(y - 1901 + 1) div 100 = (y - 1901) div 100 + (if 100 dvd (y - 1901 + 1) then 1 else 0)"
    by (rule div_succ) simp
  then show "(y + 1 - 1901) div 100 = (y - 1901) div 100 + (if 100 dvd y then 1 else 0)"
    by (simp only: e leap_dvd)
  have "(y - 1601 + 1) div 400 = (y - 1601) div 400 + (if 400 dvd (y - 1601 + 1) then 1 else 0)"
    by (rule div_succ) simp
  then show "(y + 1 - 1601) div 400 = (y - 1601) div 400 + (if 400 dvd y then 1 else 0)"
    by (simp only: e leap_dvd)
qed

lemma DayFromYear_step:
  "DayFromYear (y + 1) = DayFromYear y + (if InLeapYear y then 366 else 365)"
proof -
  define A B C where "A = (y - 1969) div 4" and "B = (y - 1901) div 100"
    and "C = (y - 1601) div 400"
  define p q r where "p \<longleftrightarrow> 4 dvd y" and "q \<longleftrightarrow> 100 dvd y" and "r \<longleftrightarrow> 400 dvd y"
  have chain: "r \<longrightarrow> q" "q \<longrightarrow> p"
    using leap_chain [of y] by (simp_all add: p_def q_def r_def)
  have l: "InLeapYear y \<longleftrightarrow> p \<and> (\<not> q \<or> r)"
    by (simp add: InLeapYear_def mod_eq_0_iff_dvd p_def q_def r_def)
  have d0: "DayFromYear y = 365 * (y - 1970) + A - B + C"
    unfolding DayFromYear_def A_def B_def C_def ..
  have "DayFromYear (y + 1) = 365 * (y + 1 - 1970) + (y + 1 - 1969) div 4
          - (y + 1 - 1901) div 100 + (y + 1 - 1601) div 400"
    unfolding DayFromYear_def ..
  then have d1: "DayFromYear (y + 1) = 365 * (y + 1 - 1970) + (A + (if p then 1 else 0))
          - (B + (if q then 1 else 0)) + (C + (if r then 1 else 0))"
    unfolding div_succ_leap A_def B_def C_def p_def q_def r_def .
  show ?thesis
    unfolding d0 d1 l using chain by (cases p; cases q; cases r; simp)
qed

lemma DayFromYear_years: "DayFromYear y + 365 * int n \<le> DayFromYear (y + int n)"
proof (induction n)
  case 0
  then show ?case by simp
next
  case (Suc n)
  have "y + int (Suc n) = y + int n + 1" by simp
  then have "DayFromYear (y + int (Suc n)) = DayFromYear (y + int n)
          + (if InLeapYear (y + int n) then 366 else 365)"
    by (simp only: DayFromYear_step)
  then have "DayFromYear (y + int n) + 365 \<le> DayFromYear (y + int (Suc n))"
    by simp
  moreover have "365 * int (Suc n) = 365 * int n + 365" by simp
  ultimately show ?case using Suc by linarith
qed

lemma DaysBeforeMonth_leap: "DaysBeforeMonth a m \<le> DaysBeforeMonth b m + 1"
  by (simp add: DaysBeforeMonth_def)

lemma month_cases:
  fixes r :: int
  assumes "0 \<le> r" "r < 11"
  shows "r = 0 \<or> r = 1 \<or> r = 2 \<or> r = 3 \<or> r = 4 \<or> r = 5 \<or> r = 6 \<or> r = 7 \<or> r = 8 \<or> r = 9 \<or> r = 10"
  using assms by presburger

lemma DaysBeforeMonth_next:
  assumes "0 \<le> r" "r < 11"
  shows "DaysBeforeMonth a r + 28 \<le> DaysBeforeMonth a (r + 1)"
  using month_cases [OF assms] by (elim disjE) (simp_all add: DaysBeforeMonth_def)

lemma DaysBeforeMonth_ends:
  "DaysBeforeMonth a 11 \<le> 335" "DaysBeforeMonth a 0 = 0"
  by (simp_all add: DaysBeforeMonth_def)

lemma MakeDay_qr:
  assumes "m = 12 * q + r" "0 \<le> r" "r < 12"
  shows "MakeDay y m d =
           DayFromYear (y + q) + DaysBeforeMonth (InLeapYear (y + q)) r + d - 1"
proof -
  have "m div 12 = q" "m mod 12 = r"
    using int_div_pos_eq [OF assms] int_mod_pos_eq [OF assms] by simp_all
  then show ?thesis by (simp only: MakeDay_def Let_def)
qed

lemma MakeDay_next_month: "MakeDay y m d < MakeDay y (m + 1) d"
proof -
  define q r where "q = m div 12" and "r = m mod 12"
  have m: "m = 12 * q + r" and r: "0 \<le> r" "r < 12"
    by (simp_all add: q_def r_def)
  have now: "MakeDay y m d = DayFromYear (y + q) + DaysBeforeMonth (InLeapYear (y + q)) r + d - 1"
    by (rule MakeDay_qr [OF m r])
  show ?thesis
  proof (cases "r = 11")
    case True
    have "m + 1 = 12 * (q + 1) + 0" by (simp add: m True)
    then have "MakeDay y (m + 1) d =
        DayFromYear (y + (q + 1)) + DaysBeforeMonth (InLeapYear (y + (q + 1))) 0 + d - 1"
      by (rule MakeDay_qr) simp_all
    then have nxt: "MakeDay y (m + 1) d = DayFromYear (y + (q + 1)) + d - 1"
      by (simp only: DaysBeforeMonth_ends(2) add_0_right)
    have "y + (q + 1) = y + q + 1" by simp
    then have "DayFromYear (y + q) + 365 \<le> DayFromYear (y + (q + 1))"
      by (simp only: DayFromYear_step) simp
    then show ?thesis
      using DaysBeforeMonth_ends(1) [of "InLeapYear (y + q)"]
      unfolding now nxt True by linarith
  next
    case False
    with r have r': "0 \<le> r" "r < 11" by simp_all
    have "m + 1 = 12 * q + (r + 1)" by (simp add: m)
    then have nxt: "MakeDay y (m + 1) d =
        DayFromYear (y + q) + DaysBeforeMonth (InLeapYear (y + q)) (r + 1) + d - 1"
      by (rule MakeDay_qr) (use r' in simp_all)
    show ?thesis
      using DaysBeforeMonth_next [OF r', of "InLeapYear (y + q)"]
      unfolding now nxt by linarith
  qed
qed

lemma MakeDay_years:
  assumes "0 < n"
  shows "MakeDay y m d < MakeDay (y + int n) m d"
proof -
  define q r where "q = m div 12" and "r = m mod 12"
  have m: "m = 12 * q + r" and r: "0 \<le> r" "r < 12"
    by (simp_all add: q_def r_def)
  have now: "MakeDay y m d = DayFromYear (y + q) + DaysBeforeMonth (InLeapYear (y + q)) r + d - 1"
    by (rule MakeDay_qr [OF m r])
  have later: "MakeDay (y + int n) m d =
      DayFromYear (y + int n + q) + DaysBeforeMonth (InLeapYear (y + int n + q)) r + d - 1"
    by (rule MakeDay_qr [OF m r])
  have "y + int n + q = y + q + int n" by simp
  then have "DayFromYear (y + q) + 365 * int n \<le> DayFromYear (y + int n + q)"
    by (simp only: DayFromYear_years)
  moreover have "365 \<le> 365 * int n" using assms by simp
  ultimately show ?thesis
    using DaysBeforeMonth_leap [of "InLeapYear (y + q)" r "InLeapYear (y + int n + q)"]
    unfolding now later by linarith
qed

lemma MakeDate_mono: "a < b \<Longrightarrow> MakeDate a t < MakeDate b t"
  by (simp add: MakeDate_def msPerDay_def)

lemma calculateExpiry_future: "valueOf now < calculateExpiry now ty"
proof -
  have "MakeDay (fullYear now) (month now) (date now)
          < MakeDay (fullYear now + 1) (month now) (date now)"
    using MakeDay_years [of 1] by simp
  moreover have "MakeDay (fullYear now) (month now) (date now)
          < MakeDay (fullYear now + 100) (month now) (date now)"
    using MakeDay_years [of 100] by simp
  ultimately show ?thesis
    by (simp add: calculateExpiry_def valueOf_def setMonth_def setFullYear_def MakeDate_mono
        MakeDay_next_month)
qed

subsection \<open>Issuance, unfolded\<close>

lemma calculateExpiry_default:
  "ty \<noteq> Str ''annual'' \<Longrightarrow> ty \<noteq> Str ''lifetime'' \<Longrightarrow>
     calculateExpiry now ty = setMonth now (month now + 1)"
  by (simp add: calculateExpiry_def)

lemma create_license_ok:
  assumes "truthy em"
  shows "create_license a (Str a) em ty (Str name) bytes now s =
     (Created (generateLicenseKey bytes)
        (calculateExpiry now (if ty = Undefined then Str ''monthly'' else ty)),
      \<lparr>licenses = setLicense (generateLicenseKey bytes)
         \<lparr>email = em,
          subscriptionId = Str (''MANUAL-'' @ intToString (valueOf now)),
          subscriptionType = (if ty = Undefined then Str ''monthly'' else ty),
          status = ''active'',
          createdAt = valueOf now,
          expiresAt = calculateExpiry now (if ty = Undefined then Str ''monthly'' else ty),
          paypalSubscriptionId = Null,
          manual = True,
          extensionName = Str name,
          extensionId = Str (generateExtensionId name),
          cancelledAt = None,
          revokedAt = None,
          revocationReason = Undefined\<rparr> (licenses s),
       stats = (stats s)\<lparr>totalSales := totalSales (stats s) + 1,
                  activeSubscriptions := activeSubscriptions (stats s) + 1\<rparr>\<rparr>)"
  using assms by (simp add: create_license_def Let_def)


lemma webhook_activated_ok:
  assumes "ev = Str ''BILLING.SUBSCRIPTION.ACTIVATED'' \<or> ev = Str ''PAYMENT.SALE.COMPLETED''"
  shows "webhook_paypal ev (Some r) bytes now s =
     (OK200,
      \<lparr>licenses = setLicense (generateLicenseKey bytes)
         \<lparr>email = jsOr (jsOr (subscriber_email_address r) (payer_email_address r))
                    (billing_agreement_id r),
          subscriptionId = jsOr (resource_id r) (billing_agreement_id r),
          subscriptionType = Str (planSubscriptionType (plan_id r)),
          status = ''active'',
          createdAt = valueOf now,
          expiresAt = calculateExpiry now (Str (planSubscriptionType (plan_id r))),
          paypalSubscriptionId = jsOr (resource_id r) (billing_agreement_id r),
          manual = False,
          extensionName = Str ''ReplyBolt'',
          extensionId = Str ''reply-bolt'',
          cancelledAt = None,
          revokedAt = None,
          revocationReason = Undefined\<rparr> (licenses s),
       stats = \<lparr>totalSales = totalSales (stats s) + 1,
                 monthlyRevenue =
                   jsonNumber (jsAdd (toNumber (monthlyRevenue (stats s)))
                     (parseFloat (if truthy (amount_total r) then strOf (amount_total r)
                                  else defaultAmount (planSubscriptionType (plan_id r))))),
                 activeSubscriptions = activeSubscriptions (stats s) + 1\<rparr>\<rparr>)"
  using assms by (auto simp: webhook_paypal_def webhookActivated_def Let_def)

subsection \<open>More evaluated examples, and revocation unfolded\<close>

lemma exampleKey2: "generateLicenseKey exampleBytes2 = ''RB-0000-0000-0000-0001''"
  by (simp add: exampleBytes2_def generateLicenseKey_def toHexUpper_def hexDigit_def)

lemma expiry_annual: "calculateExpiry exampleNow (Str ''annual'') = 1825200000000"
  by (simp add: exampleNow_def calculateExpiry_def setFullYear_def MakeDate_def MakeDay_def
      DayFromYear_def DaysBeforeMonth_def InLeapYear_def msPerDay_def)

lemma webhook_example:
  "webhook_paypal (Str ''PAYMENT.SALE.COMPLETED'') (Some examplePayment) exampleBytes exampleNow
       initialState = (OK200, examplePaid)"
  by (simp add: webhook_activated_ok exampleKey valueOf_exampleNow)
    (simp add: examplePayment_def planSubscriptionType_def jsOr_def defaultAmount_def
      expiry_annual initialState_def examplePaid_def examplePaidLicense_def
      parseFloat_99 roundDouble_99 toNumber_def jsonNumber_def)

lemma create_example2:
  "create_license exampleAuth (Str exampleAuth) (Str ''a@x.com'') (Str ''monthly'')
       (Str ''My Extension'') exampleBytes2 exampleNow examplePaid
     = (Created ''RB-0000-0000-0000-0001'' 1796256000000, exampleBoth)"
  by (simp add: create_license_ok exampleKey2 valueOf_exampleNow expiry_monthly genId_MyExtension
      intToString_exampleNow examplePaid_def exampleBoth_def exampleLicense_def)

lemma cancel_example:
  "webhook_paypal (Str ''BILLING.SUBSCRIPTION.CANCELLED'') (Some examplePayment) bytes exampleLater
       exampleBoth = (OK200, exampleTwo)"
  by (simp add: webhook_paypal_def webhookCancelled_def valueOf_exampleLater Let_def
      exampleBoth_def exampleTwo_def examplePayment_def examplePaidLicense_def)

lemma revoke_license_ok:
  assumes "getLicense (licenses s) k = Some l" and "k \<noteq> []"
  shows "revoke_license a (Str a) (Str k) reason now s =
     (Success ''License revoked successfully'',
      \<lparr>licenses = setLicense k
         (l\<lparr>status := ''revoked'', revokedAt := Some (valueOf now),
            revocationReason := (if truthy reason then reason else revocationReason l)\<rparr>)
         (licenses s),
       stats = (if status l = ''active''
                then (stats s)\<lparr>activeSubscriptions := max 0 (activeSubscriptions (stats s) - 1)\<rparr>
                else stats s)\<rparr>)"
  using assms by (simp add: revoke_license_def Let_def)

lemma getLicense_exampleTwo:
  "getLicense (licenses exampleTwo) ''RB-12AB-00FF-0102-03FE''
     = Some (examplePaidLicense\<lparr>status := ''cancelled'', cancelledAt := Some 1798934400000\<rparr>)"
  by (simp add: getLicense_def exampleTwo_def)

lemma getLicense_examplePaid:
  "getLicense (licenses examplePaid) ''RB-12AB-00FF-0102-03FE'' = Some examplePaidLicense"
  by (simp add: getLicense_def examplePaid_def)

lemma cancel_after_revoke:
  "map (\<lambda>(k, l). (k, status l))
      (licenses (snd (revoke_license exampleAuth (Str exampleAuth) (Str ''RB-12AB-00FF-0102-03FE'')
         (Str ''chargeback'') exampleNow examplePaid)))
     = [(''RB-12AB-00FF-0102-03FE'', ''revoked'')]
   \<and> map (\<lambda>(k, l). (k, status l))
      (licenses (snd (webhook_paypal (Str ''BILLING.SUBSCRIPTION.CANCELLED'') (Some examplePayment)
         exampleBytes exampleLater
         (snd (revoke_license exampleAuth (Str exampleAuth) (Str ''RB-12AB-00FF-0102-03FE'')
            (Str ''chargeback'') exampleNow examplePaid)))))
     = [(''RB-12AB-00FF-0102-03FE'', ''cancelled'')]"
  by (simp add: revoke_license_ok [OF getLicense_examplePaid] webhook_paypal_def
      webhookCancelled_def Let_def)
    (simp add: examplePaid_def examplePaidLicense_def examplePayment_def)

section \<open>The active count on the guarded paths\<close>

text \<open>
  Revocation and deletion read \<^verbatim>\<open>wasActive\<close> before they change a record and touch the
  count only then; issuance under a key that is not yet stored adds one active record and
  one to the count. Each of them keeps the stored count equal to the number of active
  records.
\<close>

lemma activeCount_setLicense:
  "int (activeCount (setLicense k v ls)) =
     int (activeCount ls)
       - (case getLicense ls k of Some l \<Rightarrow> if status l = ''active'' then 1 else 0 | None \<Rightarrow> 0)
       + (if status v = ''active'' then 1 else 0)"
  by (induction ls) (auto simp: activeCount_def getLicense_def)

lemma getLicense_deleteLicense_other:
  "getLicense ls k = None \<Longrightarrow> deleteLicense k ls = ls"
  by (induction ls) (auto simp: getLicense_def deleteLicense_def split: if_splits)

lemma activeCount_Cons:
  "activeCount ((k, l) # ls) = (if status l = ''active'' then 1 else 0) + activeCount ls"
  by (simp add: activeCount_def)

lemma deleteLicense_Cons:
  "deleteLicense k ((k', l) # ls) =
     (if k' = k then deleteLicense k ls else (k', l) # deleteLicense k ls)"
  by (simp add: deleteLicense_def)

lemma activeCount_deleteLicense:
  "distinct (map fst ls) \<Longrightarrow> getLicense ls k = Some l \<Longrightarrow>
     int (activeCount (deleteLicense k ls)) =
       int (activeCount ls) - (if status l = ''active'' then 1 else 0)"
proof (induction ls)
  case Nil
  then show ?case by (simp add: getLicense_def)
next
  case (Cons p ls)
  obtain k' l' where p: "p = (k', l')" by (cases p)
  show ?case
  proof (cases "k' = k")
    case True
    with Cons.prems p have "l' = l" "getLicense ls k = None"
      by (auto simp: getLicense_def map_of_eq_None_iff)
    then show ?thesis
      using True p getLicense_deleteLicense_other [of ls k]
      by (simp add: activeCount_Cons deleteLicense_Cons)
  next
    case False
    with Cons.prems p have "distinct (map fst ls)" "getLicense ls k = Some l"
      by (simp_all add: getLicense_def)
    then have "int (activeCount (deleteLicense k ls)) =
        int (activeCount ls) - (if status l = ''active'' then 1 else 0)"
      by (rule Cons.IH)
    then show ?thesis
      using False p by (simp add: activeCount_Cons deleteLicense_Cons)
  qed
qed

lemma activeCount_pos:
  "getLicense ls k = Some l \<Longrightarrow> status l = ''active'' \<Longrightarrow> 0 < activeCount ls"
  by (induction ls) (auto simp: activeCount_def getLicense_def split: if_splits)

lemma revoke_license_consistent:
  assumes "statsConsistent s"
  shows "statsConsistent (snd (revoke_license a auth key reason now s))"
proof (cases "auth = Str a \<and> truthy key \<and> getLicense (licenses s) (strOf key) \<noteq> None")
  case False
  then show ?thesis using assms
    by (auto simp: revoke_license_def split: option.splits)
next
  case True
  then obtain l where l: "getLicense (licenses s) (strOf key) = Some l" by auto
  from True have key: "key = Str (strOf key)" "strOf key \<noteq> []" "auth = Str a"
    using truthy_strOf [of key] by simp_all
  have pos: "status l = ''active'' \<Longrightarrow> 0 < activeCount (licenses s)"
    using activeCount_pos [OF l] .
  have "statsConsistent (snd (revoke_license a (Str a) (Str (strOf key)) reason now s))"
    unfolding revoke_license_ok [OF l key(2)]
    using assms pos
    by (auto simp: statsConsistent_def activeCount_setLicense l)
  then show ?thesis using key by simp
qed

lemma delete_license_consistent:
  assumes "statsConsistent s" and "distinct (map fst (licenses s))"
  shows "statsConsistent (snd (delete_license a auth key s))"
proof (cases "getLicense (licenses s) (strOf key)")
  case None
  then show ?thesis using assms(1)
    by (auto simp: delete_license_def)
next
  case (Some l)
  have pos: "status l = ''active'' \<Longrightarrow> 0 < activeCount (licenses s)"
    using activeCount_pos [OF Some] .
  show ?thesis
    using assms(1) pos activeCount_deleteLicense [OF assms(2) Some]
    by (auto simp: delete_license_def Some statsConsistent_def Let_def)
qed

lemma create_license_consistent:
  assumes "statsConsistent s"
    and "getLicense (licenses s) (generateLicenseKey bytes) = None"
  shows "statsConsistent (snd (create_license a auth em ty name bytes now s))"
  using assms
  by (auto simp: create_license_def statsConsistent_def activeCount_setLicense Let_def
      split: jsval.splits)

lemma webhook_activated_consistent:
  assumes "statsConsistent s"
    and "getLicense (licenses s) (generateLicenseKey bytes) = None"
  shows "statsConsistent (snd (webhook_paypal (Str ''BILLING.SUBSCRIPTION.ACTIVATED'') res bytes now s))"
  using assms
  by (auto simp: webhook_paypal_def webhookActivated_def statsConsistent_def
      activeCount_setLicense Let_def split: option.splits)

section \<open>Verification\<close>

text \<open>
  Claim C10. When the license key or the extension identifier of a verify request is
  absent (falsy), the answer is \<open>valid = false\<close> with an error text that depends on the
  request alone, and the stored state is unchanged. The store is not consulted: the
  answer on the right-hand side does not mention it.
\<close>

theorem verify_missing_input:
  assumes "\<not> truthy licenseKey \<or> \<not> truthy extId"
  shows "verify licenseKey extId now s =
           (Rejected (if \<not> truthy licenseKey then ''No license key provided''
                      else ''Extension ID is required''), s)"
  using assms by (auto simp: verify_def)

text \<open>
  The example key verifies with its extension identifier, and is rejected when the
  identifier is left out.
\<close>

theorem verify_missing_input_witness:
  "fst (verify (Str ''RB-12AB-00FF-0102-03FE'') (Str ''my-extension'') exampleNow exampleIssued)
     = Verdict True (Str ''a@x.com'') (Some 1796256000000) (Str ''monthly'') (Str ''My Extension'')
   \<and> \<not> truthy Undefined
   \<and> verify (Str ''RB-12AB-00FF-0102-03FE'') Undefined exampleNow exampleIssued
     = (Rejected ''Extension ID is required'', exampleIssued)"
  using verify_missing_input [of "Str ''RB-12AB-00FF-0102-03FE''" Undefined exampleNow exampleIssued]
  by (simp add: verify_example)

text \<open>
  Claim C6, amended. For a stored license whose stored \<^verbatim>\<open>extensionId\<close> is not empty and
  a supplied (truthy) extension identifier that differs from it, verify answers
  \<open>valid = false\<close> with the text for a different extension, whatever the status and the
  expiry of the license: the comparison comes before both. A license stored without an
  \<^verbatim>\<open>extensionId\<close>, or with an empty one, is compared with the identifier generated from
  its \<^verbatim>\<open>extensionName\<close> (\<^verbatim>\<open>ReplyBolt\<close> when that is missing or empty) instead, and a
  supplied identifier that differs from the generated one gets the same answer. An
  identifier that was not supplied has been turned away by the guard before.
\<close>

theorem verify_product_mismatch:
  assumes "getLicense (licenses s) k = Some l" and "k \<noteq> []"
  shows "(truthy (extensionId l) \<and> extId \<noteq> extensionId l \<longrightarrow>
            verify (Str k) extId now s =
              (Rejected (if truthy extId then ''This license is for a different extension''
                         else ''Extension ID is required''), s))
    \<and> (\<not> truthy (extensionId l)
          \<and> extId \<noteq> Str (generateExtensionId (strOf (jsOr (extensionName l) (Str ''ReplyBolt''))))
        \<longrightarrow> verify (Str k) extId now s =
              (Rejected (if truthy extId then ''This license is for a different extension''
                         else ''Extension ID is required''), s))"
  using assms by (auto simp: verify_def Let_def)

text \<open>
  The example license is active and has not expired; another extension is turned away.
  So it is for the license that was issued with the empty name.
\<close>

theorem verify_product_mismatch_witness:
  "getLicense (licenses exampleIssued) ''RB-12AB-00FF-0102-03FE'' = Some exampleLicense
   \<and> status exampleLicense = ''active'' \<and> valueOf exampleNow < expiresAt exampleLicense
   \<and> truthy (extensionId exampleLicense)
   \<and> Str ''other-extension'' \<noteq> extensionId exampleLicense
   \<and> verify (Str ''RB-12AB-00FF-0102-03FE'') (Str ''other-extension'') exampleNow exampleIssued
     = (Rejected ''This license is for a different extension'', exampleIssued)
   \<and> verify (Str ''RB-12AB-00FF-0102-03FE'') (Str ''other-extension'') exampleNow exampleNameless
     = (Rejected ''This license is for a different extension'', exampleNameless)"
  using verify_product_mismatch [of exampleIssued "''RB-12AB-00FF-0102-03FE''" exampleLicense
      "Str ''other-extension''" exampleNow]
    verify_product_mismatch [of exampleNameless "''RB-12AB-00FF-0102-03FE''"
      "exampleLicense\<lparr>extensionName := Str [], extensionId := Str []\<rparr>"
      "Str ''other-extension''" exampleNow]
  by (simp add: getLicense_exampleIssued getLicense_exampleNameless valueOf_exampleNow)
    (simp add: exampleLicense_def jsOr_def genId_ReplyBolt)

text \<open>
  Claim C6 as stated, at the license issued with the empty extension name: its stored
  identifier is the empty string, the request supplies \<^verbatim>\<open>reply-bolt\<close>, which differs from
  it, and the answer is \<open>valid = true\<close>.
\<close>

theorem verify_product_mismatch_counterexample:
  "create_license exampleAuth (Str exampleAuth) (Str ''a@x.com'') (Str ''monthly'') (Str [])
       exampleBytes exampleNow initialState
     = (Created ''RB-12AB-00FF-0102-03FE'' 1796256000000, exampleNameless)
   \<and> map_option extensionId (getLicense (licenses exampleNameless) ''RB-12AB-00FF-0102-03FE'')
     = Some (Str [])
   \<and> Str ''reply-bolt'' \<noteq> Str []
   \<and> verify (Str ''RB-12AB-00FF-0102-03FE'') (Str ''reply-bolt'') exampleNow exampleNameless
     = (Verdict True (Str ''a@x.com'') (Some 1796256000000) (Str ''monthly'') (Str []),
        exampleNameless)"
  by (simp add: create_nameless getLicense_exampleNameless verify_def verdict_def jsOr_def
      genId_ReplyBolt valueOf_exampleNow)
    (simp add: exampleLicense_def)

text \<open>
  Claim C9. Verify leaves the licenses and the statistics as they were, for every request.
  In particular a license whose status is \<open>active\<close> and whose expiry has passed is answered
  \<open>valid = false\<close> while its stored record, status included, stays the same.
\<close>

theorem verify_no_write:
  "snd (verify licenseKey extId now s) = s
   \<and> (\<forall>k l. getLicense (licenses s) k = Some l \<and> k \<noteq> [] \<and> status l = ''active''
            \<and> expiresAt l \<le> valueOf now
        \<longrightarrow> fst (verify (Str k) (expectedExtensionId l) now s) = Verdict False Null None Null Null
          \<and> getLicense (licenses (snd (verify (Str k) (expectedExtensionId l) now s))) k = Some l
          \<and> stats (snd (verify (Str k) (expectedExtensionId l) now s)) = stats s)"
proof -
  have frame: "snd (verify licenseKey extId now s) = s" for licenseKey extId
    by (auto simp: verify_def Let_def split: option.splits)
  have expired: "fst (verify (Str k) (expectedExtensionId l) now s) = Verdict False Null None Null Null"
    if "getLicense (licenses s) k = Some l" "k \<noteq> []" "expiresAt l \<le> valueOf now" for k l
    using verify_matching [OF that(1,2), of now] that(3) by (simp add: verdict_def)
  show ?thesis using frame expired by simp
qed

theorem verify_no_write_witness:
  "getLicense (licenses exampleIssued) ''RB-12AB-00FF-0102-03FE'' = Some exampleLicense
   \<and> status exampleLicense = ''active'' \<and> expiresAt exampleLicense \<le> valueOf exampleLater
   \<and> verify (Str ''RB-12AB-00FF-0102-03FE'') (Str ''my-extension'') exampleLater exampleIssued
     = (Verdict False Null None Null Null, exampleIssued)"
proof -
  have a: "getLicense (licenses exampleIssued) ''RB-12AB-00FF-0102-03FE'' = Some exampleLicense"
    by (rule getLicense_exampleIssued)
  have b: "status exampleLicense = ''active''" "expiresAt exampleLicense \<le> valueOf exampleLater"
    by (simp_all add: exampleLicense_def valueOf_exampleLater)
  have c: "''RB-12AB-00FF-0102-03FE'' \<noteq> []" by simp
  from verify_no_write [of "Str ''RB-12AB-00FF-0102-03FE''" "Str ''my-extension''" exampleLater
      exampleIssued] a b c
  have "snd (verify (Str ''RB-12AB-00FF-0102-03FE'') (Str ''my-extension'') exampleLater exampleIssued)
          = exampleIssued
        \<and> fst (verify (Str ''RB-12AB-00FF-0102-03FE'') (expectedExtensionId exampleLicense) exampleLater
             exampleIssued) = Verdict False Null None Null Null"
    by blast
  then show ?thesis using a b
    by (simp add: expectedExtensionId_exampleLicense prod_eq_iff)
qed

section \<open>Issuance\<close>

text \<open>
  Claim C7, amended. For the classes monthly, annual and lifetime, a truthy email and a
  non-empty extension name, manual issuance succeeds, the expiry lies after the clock
  reading, and verifying the returned key with the identifier generated from the name, at
  the same clock reading or at any other before the expiry, answers \<open>valid = true\<close> with
  the email, the expiry, the class and the name given at issuance.
\<close>

theorem issue_then_verify:
  assumes "ty = Str ''monthly'' \<or> ty = Str ''annual'' \<or> ty = Str ''lifetime''"
    and "truthy em" and "name \<noteq> []"
  shows "fst (create_license a (Str a) em ty (Str name) bytes now s)
           = Created (generateLicenseKey bytes) (calculateExpiry now ty)
    \<and> valueOf now < calculateExpiry now ty
    \<and> (\<forall>now'. valueOf now' < calculateExpiry now ty \<longrightarrow>
          verify (Str (generateLicenseKey bytes)) (Str (generateExtensionId name)) now'
              (snd (create_license a (Str a) em ty (Str name) bytes now s))
            = (Verdict True em (Some (calculateExpiry now ty)) ty (Str name),
               snd (create_license a (Str a) em ty (Str name) bytes now s)))"
proof -
  have ty: "ty \<noteq> Undefined" using assms(1) by auto
  show ?thesis
    unfolding create_license_ok [OF assms(2)]
    using ty assms(3)
    by (simp add: calculateExpiry_future verify_def verdict_def getLicense_setLicense
        generateLicenseKey_not_Nil generateExtensionId_Nil_iff)
qed

text \<open>
  The example issuance and its verification.
\<close>

theorem issue_then_verify_witness:
  "truthy (Str ''a@x.com'') \<and> ''My Extension'' \<noteq> []
   \<and> valueOf exampleNow < calculateExpiry exampleNow (Str ''monthly'')
   \<and> verify (Str ''RB-12AB-00FF-0102-03FE'') (Str ''my-extension'') exampleNow exampleIssued
       = (Verdict True (Str ''a@x.com'') (Some 1796256000000) (Str ''monthly'')
            (Str ''My Extension''), exampleIssued)"
  using issue_then_verify [of "Str ''monthly''" "Str ''a@x.com''" "''My Extension''" exampleAuth
      exampleBytes exampleNow initialState]
  by (simp add: create_example exampleKey genId_MyExtension expiry_monthly)

text \<open>
  Claim C7 as stated, at the empty extension name: issuance succeeds and stores the empty
  identifier, and verification with that identifier is turned away by the guard that
  requires an extension identifier.
\<close>

theorem issue_then_verify_counterexample:
  "fst (create_license exampleAuth (Str exampleAuth) (Str ''a@x.com'') (Str ''monthly'') (Str [])
          exampleBytes exampleNow initialState)
     = Created ''RB-12AB-00FF-0102-03FE'' 1796256000000
   \<and> fst (verify (Str ''RB-12AB-00FF-0102-03FE'') (Str (generateExtensionId [])) exampleNow
          (snd (create_license exampleAuth (Str exampleAuth) (Str ''a@x.com'') (Str ''monthly'')
             (Str []) exampleBytes exampleNow initialState)))
     = Rejected ''Extension ID is required''"
  by (simp add: create_license_ok exampleKey expiry_monthly verify_def generateExtensionId_Nil_iff)

text \<open>
  Claim C2, amended. A class other than monthly, annual and lifetime is accepted by manual
  issuance: the request succeeds, the record is stored as active under the class as
  supplied (monthly when the field is absent) with the expiry of a monthly license, and
  both counters grow by one.
\<close>

theorem create_license_unknown_class:
  assumes "ty \<noteq> Str ''monthly''" and "ty \<noteq> Str ''annual''" and "ty \<noteq> Str ''lifetime''"
    and "truthy em"
  shows "fst (create_license a (Str a) em ty (Str name) bytes now s)
           = Created (generateLicenseKey bytes) (calculateExpiry now (Str ''monthly''))
    \<and> map_option (\<lambda>l. (subscriptionType l, expiresAt l, status l))
          (getLicense (licenses (snd (create_license a (Str a) em ty (Str name) bytes now s)))
             (generateLicenseKey bytes))
        = Some (if ty = Undefined then Str ''monthly'' else ty,
                calculateExpiry now (Str ''monthly''), ''active'')
    \<and> totalSales (stats (snd (create_license a (Str a) em ty (Str name) bytes now s)))
        = totalSales (stats s) + 1
    \<and> activeSubscriptions (stats (snd (create_license a (Str a) em ty (Str name) bytes now s)))
        = activeSubscriptions (stats s) + 1"
proof -
  have "calculateExpiry now (if ty = Undefined then Str ''monthly'' else ty)
          = calculateExpiry now (Str ''monthly'')"
    using assms(2,3) by (simp add: calculateExpiry_def)
  then show ?thesis
    unfolding create_license_ok [OF assms(4)]
    by (simp add: getLicense_setLicense)
qed

text \<open>
  The class \<^verbatim>\<open>weekly\<close> on the initial files.
\<close>

theorem create_license_unknown_class_witness:
  "Str ''weekly'' \<noteq> Str ''monthly'' \<and> Str ''weekly'' \<noteq> Str ''annual''
   \<and> Str ''weekly'' \<noteq> Str ''lifetime'' \<and> truthy (Str ''a@x.com'')
   \<and> fst (create_license exampleAuth (Str exampleAuth) (Str ''a@x.com'') (Str ''weekly'')
          (Str ''My Extension'') exampleBytes exampleNow initialState)
       = Created ''RB-12AB-00FF-0102-03FE'' 1796256000000
   \<and> totalSales (stats (snd (create_license exampleAuth (Str exampleAuth) (Str ''a@x.com'')
          (Str ''weekly'') (Str ''My Extension'') exampleBytes exampleNow initialState))) = 1"
  using create_license_unknown_class [of "Str ''weekly''" "Str ''a@x.com''" exampleAuth
      "''My Extension''" exampleBytes exampleNow initialState]
  by (simp add: exampleKey expiry_monthly initialState_def)

text \<open>
  Claim C2 as stated, at the class \<^verbatim>\<open>weekly\<close>: the request is answered with a new key, and
  the state has changed.
\<close>

theorem create_license_unknown_class_counterexample:
  "create_license exampleAuth (Str exampleAuth) (Str ''a@x.com'') (Str ''weekly'')
       (Str ''My Extension'') exampleBytes exampleNow initialState
     = (Created ''RB-12AB-00FF-0102-03FE'' 1796256000000,
        \<lparr>licenses = [(''RB-12AB-00FF-0102-03FE'', exampleLicense\<lparr>subscriptionType := Str ''weekly''\<rparr>)],
         stats = \<lparr>totalSales = 1, monthlyRevenue = Some 0, activeSubscriptions = 1\<rparr>\<rparr>)
   \<and> snd (create_license exampleAuth (Str exampleAuth) (Str ''a@x.com'') (Str ''weekly'')
       (Str ''My Extension'') exampleBytes exampleNow initialState) \<noteq> initialState"
proof -
  have "calculateExpiry exampleNow (Str ''weekly'') = calculateExpiry exampleNow (Str ''monthly'')"
    by (simp add: calculateExpiry_def)
  then show ?thesis
    by (simp add: create_license_ok exampleKey valueOf_exampleNow
      expiry_monthly genId_MyExtension intToString_exampleNow initialState_def exampleLicense_def)
qed







text \<open>
  An amount that is not a number makes the sum NaN, and the revenue in the file
  \<^verbatim>\<open>null\<close>.
\<close>

lemma webhook_amount_not_a_number:
  "monthlyRevenue (stats (snd (webhook_paypal (Str ''PAYMENT.SALE.COMPLETED'')
      (Some (examplePayment\<lparr>amount_total := Str ''abc''\<rparr>)) exampleBytes2 exampleNow
      examplePaid))) = None"
  by (simp add: webhook_activated_ok examplePayment_def examplePaid_def toNumber_def
      jsonNumber_def parseFloat_abc)

section \<open>Revocation\<close>

text \<open>
  Claim C8, amended. For a stored license, two revocations in sequence both succeed. The
  record ends with status \<open>revoked\<close> and the time of the second call; the reason is that
  of the second call when it gives one, else that of the first, else the one stored
  before. The second call leaves the statistics alone. The first lowers the active count
  by one, not below zero, when the license was active before it, and leaves the
  statistics alone otherwise.
\<close>

theorem revoke_twice:
  assumes "getLicense (licenses s) k = Some l" and "k \<noteq> []"
  shows "fst (revoke_license a (Str a) (Str k) r1 t1 s) = Success ''License revoked successfully''
    \<and> fst (revoke_license a (Str a) (Str k) r2 t2 (snd (revoke_license a (Str a) (Str k) r1 t1 s)))
        = Success ''License revoked successfully''
    \<and> getLicense (licenses (snd (revoke_license a (Str a) (Str k) r2 t2
          (snd (revoke_license a (Str a) (Str k) r1 t1 s))))) k
        = Some (l\<lparr>status := ''revoked'', revokedAt := Some (valueOf t2),
                  revocationReason := (if truthy r2 then r2
                                       else if truthy r1 then r1 else revocationReason l)\<rparr>)
    \<and> stats (snd (revoke_license a (Str a) (Str k) r2 t2
          (snd (revoke_license a (Str a) (Str k) r1 t1 s))))
        = stats (snd (revoke_license a (Str a) (Str k) r1 t1 s))
    \<and> stats (snd (revoke_license a (Str a) (Str k) r1 t1 s))
        = (if status l = ''active''
           then (stats s)\<lparr>activeSubscriptions := max 0 (activeSubscriptions (stats s) - 1)\<rparr>
           else stats s)"
proof -
  define l1 where "l1 = l\<lparr>status := ''revoked'', revokedAt := Some (valueOf t1),
            revocationReason := (if truthy r1 then r1 else revocationReason l)\<rparr>"
  define s1 where "s1 = snd (revoke_license a (Str a) (Str k) r1 t1 s)"
  have first: "revoke_license a (Str a) (Str k) r1 t1 s =
     (Success ''License revoked successfully'',
      \<lparr>licenses = setLicense k l1 (licenses s),
       stats = (if status l = ''active''
                then (stats s)\<lparr>activeSubscriptions := max 0 (activeSubscriptions (stats s) - 1)\<rparr>
                else stats s)\<rparr>)"
    unfolding l1_def by (rule revoke_license_ok [OF assms])
  have g1: "getLicense (licenses s1) k = Some l1"
    by (simp add: s1_def first getLicense_setLicense)
  have second: "revoke_license a (Str a) (Str k) r2 t2 s1 =
     (Success ''License revoked successfully'',
      \<lparr>licenses = setLicense k
         (l1\<lparr>status := ''revoked'', revokedAt := Some (valueOf t2),
            revocationReason := (if truthy r2 then r2 else revocationReason l1)\<rparr>)
         (licenses s1),
       stats = (if status l1 = ''active''
                then (stats s1)\<lparr>activeSubscriptions := max 0 (activeSubscriptions (stats s1) - 1)\<rparr>
                else stats s1)\<rparr>)"
    by (rule revoke_license_ok [OF g1 assms(2)])
  show ?thesis
    unfolding s1_def [symmetric] second
    by (simp add: first s1_def getLicense_setLicense l1_def)
qed

text \<open>
  The example license revoked twice, the second time without a reason.
\<close>

theorem revoke_twice_witness:
  "getLicense (licenses exampleIssued) ''RB-12AB-00FF-0102-03FE'' = Some exampleLicense
   \<and> ''RB-12AB-00FF-0102-03FE'' \<noteq> []
   \<and> getLicense (licenses (snd (revoke_license exampleAuth (Str exampleAuth)
          (Str ''RB-12AB-00FF-0102-03FE'') Undefined exampleLater
          (snd (revoke_license exampleAuth (Str exampleAuth) (Str ''RB-12AB-00FF-0102-03FE'')
             (Str ''chargeback'') exampleNow exampleIssued))))) ''RB-12AB-00FF-0102-03FE''
       = Some (exampleLicense\<lparr>status := ''revoked'', revokedAt := Some 1798934400000,
                 revocationReason := Str ''chargeback''\<rparr>)
   \<and> activeSubscriptions (stats (snd (revoke_license exampleAuth (Str exampleAuth)
          (Str ''RB-12AB-00FF-0102-03FE'') Undefined exampleLater
          (snd (revoke_license exampleAuth (Str exampleAuth) (Str ''RB-12AB-00FF-0102-03FE'')
             (Str ''chargeback'') exampleNow exampleIssued))))) = 0"
  using revoke_twice [of exampleIssued "''RB-12AB-00FF-0102-03FE''" exampleLicense exampleAuth
      "Str ''chargeback''" exampleNow Undefined exampleLater]
  by (simp add: getLicense_exampleIssued valueOf_exampleLater)
    (simp add: exampleLicense_def exampleIssued_def)

text \<open>
  Claim C8 as stated, at a license that was cancelled before: both revocations succeed and
  the active count is 1 before and after, so it has not been lowered once.
\<close>

theorem revoke_twice_counterexample:
  "activeSubscriptions (stats exampleTwo) = 1
   \<and> fst (revoke_license exampleAuth (Str exampleAuth) (Str ''RB-12AB-00FF-0102-03FE'')
          (Str ''chargeback'') exampleNow exampleTwo) = Success ''License revoked successfully''
   \<and> fst (revoke_license exampleAuth (Str exampleAuth) (Str ''RB-12AB-00FF-0102-03FE'')
          (Str ''chargeback'') exampleLater
          (snd (revoke_license exampleAuth (Str exampleAuth) (Str ''RB-12AB-00FF-0102-03FE'')
             (Str ''chargeback'') exampleNow exampleTwo))) = Success ''License revoked successfully''
   \<and> activeSubscriptions (stats (snd (revoke_license exampleAuth (Str exampleAuth)
          (Str ''RB-12AB-00FF-0102-03FE'') (Str ''chargeback'') exampleLater
          (snd (revoke_license exampleAuth (Str exampleAuth) (Str ''RB-12AB-00FF-0102-03FE'')
             (Str ''chargeback'') exampleNow exampleTwo))))) = 1"
proof -
  have first: "revoke_license exampleAuth (Str exampleAuth) (Str ''RB-12AB-00FF-0102-03FE'')
          (Str ''chargeback'') exampleNow exampleTwo
      = (Success ''License revoked successfully'',
         \<lparr>licenses = [(''RB-12AB-00FF-0102-03FE'',
               examplePaidLicense\<lparr>status := ''revoked'', cancelledAt := Some 1798934400000,
                  revokedAt := Some 1793664000000, revocationReason := Str ''chargeback''\<rparr>),
              (''RB-0000-0000-0000-0001'', exampleLicense)],
          stats = \<lparr>totalSales = 2, monthlyRevenue = Some 99, activeSubscriptions = 1\<rparr>\<rparr>)"
    by (simp add: revoke_license_ok [OF getLicense_exampleTwo] valueOf_exampleNow)
      (simp add: exampleTwo_def examplePaidLicense_def)
  show ?thesis
    unfolding first
    by (simp add: revoke_license_def getLicense_def Let_def) (simp add: exampleTwo_def)
qed

section \<open>Cancellation\<close>

text \<open>
  Claim C1, evaluated where the code departs from it. After one manual issuance on the
  initial files the stored active count agrees with the records. A cancellation event whose
  subscription matches no record is then answered 200, and afterwards the count is 0
  while one record is active: the cancellation branch lowers the count without looking
  at what the loop found.
\<close>

theorem cancel_breaks_active_count:
  "snd (create_license exampleAuth (Str exampleAuth) (Str ''a@x.com'') (Str ''monthly'')
       (Str ''My Extension'') exampleBytes exampleNow initialState) = exampleIssued
   \<and> statsConsistent initialState
   \<and> statsConsistent exampleIssued
   \<and> fst (webhook_paypal (Str ''BILLING.SUBSCRIPTION.CANCELLED'') (Some examplePayment)
          exampleBytes exampleLater exampleIssued) = OK200
   \<and> \<not> statsConsistent (snd (webhook_paypal (Str ''BILLING.SUBSCRIPTION.CANCELLED'')
          (Some examplePayment) exampleBytes exampleLater exampleIssued))"
  by (simp add: create_example)
    (simp add: statsConsistent_def activeCount_def initialState_def exampleIssued_def
      exampleLicense_def webhook_paypal_def webhookCancelled_def examplePayment_def Let_def)

text \<open>
  Claim C3, evaluated where the code departs from it. A cancellation event that matches
  no record leaves the licenses alone and lowers the active count from 1 to 0. The same
  event delivered again for a license that is already cancelled lowers the count from 1
  to 0 as well, while the one active license is untouched.
\<close>

theorem cancel_decrements_unconditionally:
  "webhook_paypal (Str ''BILLING.SUBSCRIPTION.CANCELLED'') (Some examplePayment) exampleBytes
       exampleLater exampleIssued
     = (OK200, exampleIssued\<lparr>stats := \<lparr>totalSales = 1, monthlyRevenue = Some 0,
                                          activeSubscriptions = 0\<rparr>\<rparr>)
   \<and> activeSubscriptions (stats exampleIssued) = 1
   \<and> webhook_paypal (Str ''BILLING.SUBSCRIPTION.CANCELLED'') (Some examplePayment) exampleBytes
       exampleLater exampleTwo
     = (OK200, exampleTwo\<lparr>stats := \<lparr>totalSales = 2, monthlyRevenue = Some 99,
                                       activeSubscriptions = 0\<rparr>\<rparr>)
   \<and> activeSubscriptions (stats exampleTwo) = 1
   \<and> map (\<lambda>(k, l). (k, status l)) (licenses exampleTwo)
       = [(''RB-12AB-00FF-0102-03FE'', ''cancelled''), (''RB-0000-0000-0000-0001'', ''active'')]"
  by (simp add: webhook_paypal_def webhookCancelled_def Let_def valueOf_exampleLater)
    (simp add: exampleIssued_def exampleTwo_def examplePayment_def exampleLicense_def
      examplePaidLicense_def)

text \<open>
  A revoked license whose subscription is cancelled afterwards is stored as cancelled.
\<close>

lemma cancel_overwrites_revoked:
  "map (\<lambda>(k, l). (k, status l))
      (licenses (snd (webhook_paypal (Str ''BILLING.SUBSCRIPTION.CANCELLED'') (Some examplePayment)
         exampleBytes exampleLater
         (snd (revoke_license exampleAuth (Str exampleAuth) (Str ''RB-12AB-00FF-0102-03FE'')
            (Str ''chargeback'') exampleNow examplePaid)))))
     = [(''RB-12AB-00FF-0102-03FE'', ''cancelled'')]"
  using cancel_after_revoke by simp

end
